theory Spec2Isabelle
  imports Main "HOL-Library.Word" "HOL-Library.AList"
begin

unbundle bit_operations_syntax

section \<open>Values crossing the native-function boundary\<close>

text \<open>
  A \<open>RayaValue*\<close> is an opaque handle to a VM value.  The kinds of value are the
  ones the boundary names: null, boolean, 32-bit integer, string, array, object and
  error.  A C \<open>int\<close> / \<open>int32_t\<close> is a \<open>32 word\<close>, a byte a \<open>8 word\<close>; a
  \<open>size_t\<close> that counts bytes of a string held in memory is a \<open>nat\<close>, and becomes a
  \<open>64 word\<close> where the source applies a bit operation to it.
\<close>

datatype RayaValue =
    VNull
  | VBool bool
  | VI32 "32 word"
  | VString string
  | VArray "RayaValue list"
  | VObject nat
  | VError string

text \<open>
  Modelled from the spec: the header \<open>raya/module.h\<close> that declares the constructors
  and accessors used by the modules is not part of the sources.  The accessors return a
  sentinel (null, 0, false) when the runtime type of the handle does not match; the
  constructors build a value of the named kind; \<open>raya_error_new\<close> builds the error
  value that carries a message.
\<close>

definition raya_value_to_string :: "RayaValue \<Rightarrow> string option" where
  "raya_value_to_string v = (case v of VString s \<Rightarrow> Some s | _ \<Rightarrow> None)"

definition raya_value_to_i32 :: "RayaValue \<Rightarrow> 32 word" where
  "raya_value_to_i32 v = (case v of VI32 n \<Rightarrow> n | _ \<Rightarrow> 0)"

definition raya_value_to_bool :: "RayaValue \<Rightarrow> 32 word" where
  "raya_value_to_bool v = (case v of VBool b \<Rightarrow> (if b then 1 else 0) | _ \<Rightarrow> 0)"

definition raya_value_null :: RayaValue where
  "raya_value_null = VNull"

definition raya_value_from_bool :: "32 word \<Rightarrow> RayaValue" where
  "raya_value_from_bool n = VBool (n \<noteq> 0)"

definition raya_value_from_i32 :: "32 word \<Rightarrow> RayaValue" where
  "raya_value_from_i32 n = VI32 n"

definition raya_array_new :: "nat \<Rightarrow> RayaValue" where
  "raya_array_new len = VArray (replicate len VNull)"

definition raya_array_set :: "RayaValue \<Rightarrow> nat \<Rightarrow> RayaValue \<Rightarrow> RayaValue" where
  "raya_array_set array i v =
     (case array of
        VArray xs \<Rightarrow> (if i < length xs then VArray (xs[i := v]) else VArray xs)
      | other \<Rightarrow> other)"

section \<open>C strings\<close>

text \<open>
  A \<open>const char*\<close> is the list of bytes from the pointer on; the string it denotes
  ends before the first NUL byte (or at the end of the list, where the terminator
  stands).  \<open>strlen\<close> counts up to there, \<open>std_string\<close> is the conversion
  \<open>std::string(const char*)\<close>, \<open>strcmp\<close> compares bytewise as unsigned values up to
  and including the terminator.
\<close>

fun strlen :: "string \<Rightarrow> nat" where
  "strlen [] = 0"
| "strlen (c # cs) = (if c = CHR 0x00 then 0 else Suc (strlen cs))"

definition std_string :: "string \<Rightarrow> string" where
  "std_string s = take (strlen s) s"

fun strcmp :: "string \<Rightarrow> string \<Rightarrow> int" where
  "strcmp [] [] = 0"
| "strcmp [] (y # ys) = - of_char y"
| "strcmp (x # xs) [] = of_char x"
| "strcmp (x # xs) (y # ys) =
     (if x \<noteq> y then of_char x - of_char y
      else if x = CHR 0x00 then 0
      else strcmp xs ys)"

text \<open>
  Modelled from the spec: \<open>raya_value_from_string\<close> and \<open>raya_error_new\<close> are
  declared in that header as well.  Both take a \<open>const char*\<close>, so the value
  they build holds the content of that C string.
\<close>

definition raya_value_from_string :: "string \<Rightarrow> RayaValue" where
  "raya_value_from_string s = VString (std_string s)"

definition raya_error_new :: "string \<Rightarrow> RayaValue" where
  "raya_error_new message = VError (std_string message)"

section \<open>crypto.cpp: constantTimeEqual\<close>

text \<open>
  The comparison loop.  The state is the accumulator \<open>result\<close> (a C \<open>int\<close>) together
  with a log of what each iteration read: the index and the two bytes.  The log is not
  in the source; it records the loop's accesses so that they can be stated.
\<close>

function ct_loop ::
  "string \<Rightarrow> string \<Rightarrow> nat \<Rightarrow> nat \<Rightarrow> nat \<Rightarrow> nat \<Rightarrow>
   32 word \<times> (nat \<times> 8 word \<times> 8 word) list \<Rightarrow> 32 word \<times> (nat \<times> 8 word \<times> 8 word) list"
where
  "ct_loop a b len_a len_b max_len i (result, reads) =
     (if i < max_len then
        let byte_a = (if i < len_a then of_char (a ! i) else 0 :: 8 word);
            byte_b = (if i < len_b then of_char (b ! i) else 0 :: 8 word)
        in ct_loop a b len_a len_b max_len (Suc i)
             (result OR (ucast byte_a XOR ucast byte_b), reads @ [(i, byte_a, byte_b)])
      else (result, reads))"
  by pat_completeness auto
termination
  by (relation "measure (\<lambda>(a, b, len_a, len_b, max_len, i, st). max_len - i)") auto

declare ct_loop.simps [simp del]

text \<open>\<open>result |= (len_a ^ len_b)\<close>: the \<open>int\<close> is converted to \<open>size_t\<close>, the OR is
  taken at 64 bits, and the assignment keeps the low 32 bits.\<close>

definition or_assign_size_t :: "32 word \<Rightarrow> 64 word \<Rightarrow> 32 word" where
  "or_assign_size_t result x = ucast ((scast result :: 64 word) OR x)"

text \<open>Lines 170 to 181: the lengths, their maximum, and the loop from index 0.\<close>

definition compare_loop :: "string \<Rightarrow> string \<Rightarrow> 32 word \<times> (nat \<times> 8 word \<times> 8 word) list" where
  "compare_loop a b =
     (let len_a = strlen a;
          len_b = strlen b;
          max_len = (if len_a > len_b then len_a else len_b)
      in ct_loop a b len_a len_b max_len 0 (0, []))"

definition native_constant_time_equal :: "RayaValue list \<Rightarrow> RayaValue" where
  "native_constant_time_equal args =
     (if length args \<noteq> 2 then raya_error_new ''constantTimeEqual() requires 2 arguments''
      else
        case (raya_value_to_string (args ! 0), raya_value_to_string (args ! 1)) of
          (Some a, Some b) \<Rightarrow>
            let result = fst (compare_loop a b);
                result = or_assign_size_t result
                           (word_of_nat (strlen a) XOR word_of_nat (strlen b))
            in raya_value_from_bool (if result = 0 then 1 else 0)
        | _ \<Rightarrow> raya_error_new ''Both arguments must be strings'')"

section \<open>crypto.cpp: hash and randomBytes\<close>

text \<open>
  What the module takes from outside: the digest that OpenSSL leaves in the buffer
  \<open>hash\<close> after \<open>SHA256_Final\<close> / \<open>SHA512_Final\<close> (byte \<open>i\<close> of the digest of the
  bytes fed to \<open>Update\<close>), and the successive values of \<open>dis(gen)\<close>.
\<close>

record crypto_env =
  sha256_final :: "string \<Rightarrow> nat \<Rightarrow> 8 word"
  sha512_final :: "string \<Rightarrow> nat \<Rightarrow> 8 word"
  dis_gen :: "nat \<Rightarrow> 32 word"

definition SHA256_DIGEST_LENGTH :: nat where
  "SHA256_DIGEST_LENGTH = 32"

definition SHA512_DIGEST_LENGTH :: nat where
  "SHA512_DIGEST_LENGTH = 64"

text \<open>\<open>sprintf(p, "%02x", byte)\<close>: two lower-case hexadecimal digits.\<close>

definition hex_digit :: "nat \<Rightarrow> char" where
  "hex_digit n = ''0123456789abcdef'' ! n"

definition sprintf_02x :: "8 word \<Rightarrow> string" where
  "sprintf_02x byte = [hex_digit (unat byte div 16), hex_digit (unat byte mod 16)]"

definition to_hex :: "(nat \<Rightarrow> 8 word) \<Rightarrow> nat \<Rightarrow> string" where
  "to_hex hash digest_length = concat (map (\<lambda>i. sprintf_02x (hash i)) [0..<digest_length])"

definition native_hash :: "crypto_env \<Rightarrow> RayaValue list \<Rightarrow> RayaValue" where
  "native_hash env args =
     (if length args \<noteq> 2 then raya_error_new ''hash() requires 2 arguments''
      else
        case raya_value_to_string (args ! 0) of
          None \<Rightarrow> raya_error_new ''First argument must be a string''
        | Some algorithm \<Rightarrow>
            (case raya_value_to_string (args ! 1) of
               None \<Rightarrow> raya_error_new ''Second argument must be a string''
             | Some data \<Rightarrow>
                 if strcmp algorithm ''sha256'' = 0 then
                   let hash = sha256_final env (take (strlen data) data);
                       hex = to_hex hash SHA256_DIGEST_LENGTH
                   in raya_value_from_string hex
                 else if strcmp algorithm ''sha512'' = 0 then
                   let hash = sha512_final env (take (strlen data) data);
                       hex = to_hex hash SHA512_DIGEST_LENGTH
                   in raya_value_from_string hex
                 else
                   let error = ''Unsupported hash algorithm: '';
                       error = error @ std_string algorithm;
                       error = error @ '' (supported: sha256, sha512)''
                   in raya_error_new error))"

definition native_random_bytes :: "crypto_env \<Rightarrow> RayaValue list \<Rightarrow> RayaValue" where
  "native_random_bytes env args =
     (if length args \<noteq> 1 then raya_error_new ''randomBytes() requires 1 argument''
      else
        let length = raya_value_to_i32 (args ! 0) in
        if sint length \<le> 0 \<or> sint length > 1024 * 1024 then
          raya_error_new ''Length must be between 1 and 1048576''
        else
          let n = nat (sint length);
              bytes = map (\<lambda>i. (ucast (dis_gen env i) :: 8 word)) [0..<n];
              array = raya_array_new n
          in fold (\<lambda>i array. raya_array_set array i (raya_value_from_i32 (ucast (bytes ! i))))
               [0..<n] array)"

section \<open>fs.cpp: the string converter\<close>

text \<open>
  \<open>TypeConverter<std::string>::from_raya\<close>: the accessor's null pointer becomes the
  empty \<open>std::string\<close>, any other pointer the string it points to.
\<close>

definition string_from_raya :: "RayaValue \<Rightarrow> string" where
  "string_from_raya v =
     (case raya_value_to_string v of Some str \<Rightarrow> std_string str | None \<Rightarrow> [])"

section \<open>fs.cpp: the macro RAYA_FUNCTION and the native functions\<close>

text \<open>
  The macro is
  \<^verbatim>\<open>#define RAYA_FUNCTION(name, impl) RayaValue* native_##name(RayaContext* ctx, RayaValue** args, size_t argc)\<close>
  Its replacement list is the prototype alone; the parameter \<open>impl\<close> does not occur in
  it.  A top-level item of a translation unit is a prototype or a definition with a
  body, and a use of the macro expands to a prototype whatever is handed over as
  \<open>impl\<close>.
\<close>

datatype 'impl top_level = Prototype string | Definition string 'impl

definition RAYA_FUNCTION :: "string \<Rightarrow> 'impl \<Rightarrow> 'impl top_level" where
  "RAYA_FUNCTION name impl = Prototype (''native_'' @ name)"

text \<open>
  The six uses of the macro in fs.cpp, each followed by a semicolon.  The function
  \<open>impl\<close> stands for the brace blocks written as second arguments; fs.cpp holds no
  other top-level item that names a \<open>native_\<close> function.
\<close>

definition fs_cpp_native_functions :: "(string \<Rightarrow> 'impl) \<Rightarrow> 'impl top_level list" where
  "fs_cpp_native_functions impl =
     [RAYA_FUNCTION ''read_file'' (impl ''read_file''),
      RAYA_FUNCTION ''write_file'' (impl ''write_file''),
      RAYA_FUNCTION ''exists'' (impl ''exists''),
      RAYA_FUNCTION ''mkdir'' (impl ''mkdir''),
      RAYA_FUNCTION ''remove'' (impl ''remove''),
      RAYA_FUNCTION ''list_dir'' (impl ''list_dir'')]"

text \<open>
  The body a translation unit gives to a function name, if it defines it, and the
  result of calling a function by name: there is a result only if there is a body.
\<close>

fun function_body :: "'impl top_level list \<Rightarrow> string \<Rightarrow> 'impl option" where
  "function_body [] f = None"
| "function_body (Prototype g # items) f = function_body items f"
| "function_body (Definition g body # items) f =
     (if g = f then Some body else function_body items f)"

definition call_native ::
  "(RayaValue list \<Rightarrow> RayaValue) top_level list \<Rightarrow> string \<Rightarrow> RayaValue list \<Rightarrow>
   RayaValue option" where
  "call_native unit f args = map_option (\<lambda>body. body args) (function_body unit f)"

section \<open>Module registration\<close>

text \<open>
  Modelled from the spec: the builder functions \<open>raya_module_builder_new\<close>,
  \<open>raya_module_add_function\<close> and \<open>raya_module_builder_finish\<close> are declared in
  \<open>raya/module.h\<close>, which is not part of the sources.  A module is a name, a
  version and an ordered mapping from exported name to function and declared arity;
  adding a name again overwrites its entry.
\<close>

record 'f RayaModuleBuilder =
  builder_name :: string
  builder_version :: string
  builder_functions :: "(string \<times> 'f \<times> nat) list"

record 'f RayaModule =
  mod_name :: string
  mod_version :: string
  mod_functions :: "(string \<times> 'f \<times> nat) list"

definition raya_module_builder_new :: "string \<Rightarrow> string \<Rightarrow> 'f RayaModuleBuilder" where
  "raya_module_builder_new name version =
     \<lparr>builder_name = name, builder_version = version, builder_functions = []\<rparr>"

definition raya_module_add_function ::
  "'f RayaModuleBuilder \<Rightarrow> string \<Rightarrow> 'f \<Rightarrow> nat \<Rightarrow> 'f RayaModuleBuilder" where
  "raya_module_add_function builder name func arity =
     builder\<lparr>builder_functions := AList.update name (func, arity) (builder_functions builder)\<rparr>"

definition raya_module_builder_finish :: "'f RayaModuleBuilder \<Rightarrow> 'f RayaModule" where
  "raya_module_builder_finish builder =
     \<lparr>mod_name = builder_name builder, mod_version = builder_version builder,
      mod_functions = builder_functions builder\<rparr>"

text \<open>\<open>RAYA_MODULE_INIT(crypto)\<close>.\<close>

definition raya_module_init_crypto ::
  "(crypto_env \<Rightarrow> RayaValue list \<Rightarrow> RayaValue) RayaModule" where
  "raya_module_init_crypto =
     raya_module_builder_finish
       (raya_module_add_function
         (raya_module_add_function
           (raya_module_add_function (raya_module_builder_new ''crypto'' ''1.0.0'')
              ''hash'' native_hash 2)
            ''randomBytes'' native_random_bytes 1)
          ''constantTimeEqual'' (\<lambda>env. native_constant_time_equal) 2)"

text \<open>
  \<open>RAYA_MODULE_INIT(fs)\<close> registers the six functions by their symbols; an entry
  holds the name of the symbol.
\<close>

definition raya_module_init_fs :: "string RayaModule" where
  "raya_module_init_fs =
     (let builder = raya_module_builder_new ''fs'' ''1.0.0'';
          builder = raya_module_add_function builder ''readFile'' ''native_read_file'' 1;
          builder = raya_module_add_function builder ''writeFile'' ''native_write_file'' 2;
          builder = raya_module_add_function builder ''exists'' ''native_exists'' 1;
          builder = raya_module_add_function builder ''mkdir'' ''native_mkdir'' 1;
          builder = raya_module_add_function builder ''remove'' ''native_remove'' 1;
          builder = raya_module_add_function builder ''listDir'' ''native_list_dir'' 1
      in raya_module_builder_finish builder)"

text \<open>The messages with which the functions of crypto.cpp report a wrong argument
  count.\<close>

definition argument_count_messages :: "string list" where
  "argument_count_messages =
     [''hash() requires 2 arguments'',
      ''randomBytes() requires 1 argument'',
      ''constantTimeEqual() requires 2 arguments'']"

definition argument_count_error :: "RayaValue \<Rightarrow> bool" where
  "argument_count_error v = (case v of VError m \<Rightarrow> m \<in> set argument_count_messages | _ \<Rightarrow> False)"

section \<open>raya.h: releasing handles\<close>

text \<open>
  Modelled from the spec: \<open>raya_value_free\<close>, \<open>raya_error_free\<close>,
  \<open>raya_snapshot_free\<close> and \<open>raya_vm_destroy\<close> are declared in \<open>raya.h\<close>; their
  bodies belong to the engine and are not part of the sources.  A handle is NULL
  (\<open>None\<close>) or an address.  The allocator state records which addresses hold a live
  object and of which kind.  Releasing a live handle frees its block; releasing NULL
  or a handle that is not live any more is a no-op.
\<close>

datatype handle_kind = VMHandle | ValueHandle | ErrorHandle | SnapshotHandle

type_synonym allocator = "nat \<rightharpoonup> handle_kind"

definition release :: "handle_kind \<Rightarrow> nat option \<Rightarrow> allocator \<Rightarrow> allocator" where
  "release kind handle alloc =
     (case handle of
        None \<Rightarrow> alloc
      | Some p \<Rightarrow> (if alloc p = Some kind then alloc(p := None) else alloc))"

definition raya_value_free :: "nat option \<Rightarrow> allocator \<Rightarrow> allocator" where
  "raya_value_free v alloc = release ValueHandle v alloc"

definition raya_error_free :: "nat option \<Rightarrow> allocator \<Rightarrow> allocator" where
  "raya_error_free e alloc = release ErrorHandle e alloc"

definition raya_snapshot_free :: "nat option \<Rightarrow> allocator \<Rightarrow> allocator" where
  "raya_snapshot_free s alloc = release SnapshotHandle s alloc"

definition raya_vm_destroy :: "nat option \<Rightarrow> allocator \<Rightarrow> allocator" where
  "raya_vm_destroy vm alloc = release VMHandle vm alloc"

section \<open>Example environment\<close>

text \<open>
  Concrete surroundings for evaluating the crypto functions: a digest buffer and a
  generator that are all zero.
\<close>

definition zero_crypto_env :: crypto_env where
  "zero_crypto_env =
     \<lparr>sha256_final = (\<lambda>data i. 0), sha512_final = (\<lambda>data i. 0), dis_gen = (\<lambda>k. 0)\<rparr>"

section \<open>Facts about bytes and C strings\<close>

lemma of_char_word_inj: "(of_char c :: 8 word) = of_char d \<longleftrightarrow> c = d"
proof -
  have "(of_char c :: 8 word) = of_char d \<longleftrightarrow>
        (word_of_nat (of_char c) :: 8 word) = word_of_nat (of_char d)"
    by (simp only: of_nat_of_char)
  also have "\<dots> \<longleftrightarrow> (of_char c :: nat) = of_char d"
    by (simp add: word_of_nat_eq_iff take_bit_eq_mod)
  finally show ?thesis by simp
qed

lemma of_char_word_eq_0: "(of_char c :: 8 word) = 0 \<longleftrightarrow> c = CHR 0x00"
  using of_char_word_inj [of c "CHR 0x00"] by simp

lemma byte_xor_eq_0: "(x :: 8 word) XOR y = 0 \<longleftrightarrow> x = y"
proof
  assume "x XOR y = 0"
  then have "(x XOR y) XOR y = 0 XOR y" by simp
  then show "x = y" by (simp add: xor.assoc)
qed simp

lemma ucast_byte_eq_0: "(ucast (z :: 8 word) :: 32 word) = 0 \<longleftrightarrow> z = 0"
  by (simp add: word_eq_iff_unsigned [where ?'a = nat] unsigned_ucast_eq take_bit_nat_eq_self
      unsigned_less [THEN less_trans])

lemma ucast_xor_eq_0: "(ucast (x :: 8 word) XOR ucast y :: 32 word) = 0 \<longleftrightarrow> x = y"
proof -
  have "(ucast x XOR ucast y :: 32 word) = ucast (x XOR y)"
    by (simp add: unsigned_xor_eq)
  then show ?thesis
    by (simp add: ucast_byte_eq_0 byte_xor_eq_0)
qed

lemma or_assign_size_t_low: "or_assign_size_t r x = r OR ucast x"
  unfolding or_assign_size_t_def
  by (rule bit_word_eqI) (auto simp: bit_simps)

lemma or_assign_size_t_eq_0: "or_assign_size_t r x = 0 \<longleftrightarrow> r = 0 \<and> (ucast x :: 32 word) = 0"
  by (simp add: or_assign_size_t_low or_eq_0_iff)

lemma strlen_le: "strlen s \<le> length s"
  by (induction s) auto

lemma strlen_nth: "i < strlen s \<Longrightarrow> s ! i \<noteq> CHR 0x00"
  by (induction s arbitrary: i) (auto simp: nth_Cons' split: if_splits)

lemma std_string_length: "length (std_string a) = strlen a"
  by (simp add: std_string_def strlen_le)

lemma std_string_eq_nth:
  assumes "strlen a = strlen b"
  shows "std_string a = std_string b \<longleftrightarrow> (\<forall>j < strlen a. a ! j = b ! j)"
  unfolding std_string_def using assms strlen_le [of a] strlen_le [of b]
  by (auto simp: list_eq_iff_nth_eq)

section \<open>The comparison loop\<close>

lemma ct_loop_result:
  "fst (ct_loop a b la lb m i (r, t)) = 0 \<longleftrightarrow>
     r = 0 \<and> (\<forall>j. i \<le> j \<and> j < m \<longrightarrow>
        (if j < la then of_char (a ! j) else 0 :: 8 word) =
        (if j < lb then of_char (b ! j) else 0))"
proof (induction a b la lb m i "(r, t)" arbitrary: r t rule: ct_loop.induct)
  case (1 a b la lb m i r t)
  show ?case
  proof (cases "i < m")
    case True
    have split: "\<And>P. (\<forall>j. i \<le> j \<and> j < m \<longrightarrow> P j) \<longleftrightarrow>
        P i \<and> (\<forall>j. Suc i \<le> j \<and> j < m \<longrightarrow> P j)"
      using True by (metis Suc_leD Suc_le_eq le_eq_less_or_eq order_refl)
    show ?thesis
      apply (subst ct_loop.simps)
      apply (simp only: True if_True Let_def)
      apply (subst "1.hyps" [OF True refl refl])
      apply (subst split)
      apply (simp only: or_eq_0_iff ucast_xor_eq_0)
      apply blast
      done
  next
    case False
    then show ?thesis by (subst ct_loop.simps) auto
  qed
qed

lemma ct_loop_reads:
  "snd (ct_loop a b la lb m i (r, t)) =
     t @ map (\<lambda>j. (j, if j < la then of_char (a ! j) else 0,
                       if j < lb then of_char (b ! j) else 0)) [i..<m]"
proof (induction a b la lb m i "(r, t)" arbitrary: r t rule: ct_loop.induct)
  case (1 a b la lb m i r t)
  show ?case
  proof (cases "i < m")
    case True
    show ?thesis
      apply (subst ct_loop.simps)
      apply (simp only: True if_True Let_def)
      apply (subst "1.hyps" [OF True refl refl])
      apply (simp add: upt_conv_Cons [OF True])
      done
  next
    case False
    then show ?thesis by (subst ct_loop.simps) auto
  qed
qed

lemma padded_bytes_eq_iff:
  "(\<forall>j. j < max (strlen a) (strlen b) \<longrightarrow>
      (if j < strlen a then of_char (a ! j) else 0 :: 8 word) =
      (if j < strlen b then of_char (b ! j) else 0))
   \<longleftrightarrow> std_string a = std_string b" (is "?L \<longleftrightarrow> ?R")
proof (cases "strlen a = strlen b")
  case True
  then show ?thesis
    by (simp add: std_string_eq_nth of_char_word_inj)
next
  case False
  have nR: "\<not> ?R" using False std_string_length by metis
  have nL: "\<not> ?L"
  proof (cases "strlen a < strlen b")
    case True
    then have "(of_char (b ! strlen a) :: 8 word) \<noteq> 0"
      by (simp add: of_char_word_eq_0 strlen_nth)
    with True show ?thesis
      by (intro notI) (auto dest!: spec [of _ "strlen a"] simp: max_def)
  next
    case F: False
    with False have lt: "strlen b < strlen a" by simp
    then have "(of_char (a ! strlen b) :: 8 word) \<noteq> 0"
      by (simp add: of_char_word_eq_0 strlen_nth)
    with lt show ?thesis
      by (intro notI) (auto dest!: spec [of _ "strlen b"] simp: max_def)
  qed
  from nL nR show ?thesis by simp
qed

lemma compare_loop_result:
  "fst (compare_loop a b) = 0 \<longleftrightarrow> std_string a = std_string b"
proof -
  have m: "(if strlen a > strlen b then strlen a else strlen b) = max (strlen a) (strlen b)"
    by (simp add: max_def)
  show ?thesis
    unfolding compare_loop_def Let_def m
    by (simp add: ct_loop_result padded_bytes_eq_iff)
qed

text \<open>
  Claim C1.  Called with two arguments, both strings, \<open>constantTimeEqual\<close> returns the
  boolean that tells whether the two C strings have the same content: the same length
  and the same bytes up to the terminator.
\<close>

theorem constant_time_equal_correct:
  "native_constant_time_equal [VString a, VString b] = VBool (std_string a = std_string b)"
proof -
  have len: "std_string a = std_string b \<Longrightarrow> strlen a = strlen b"
    using std_string_length by metis
  show ?thesis
    using len
    by (auto simp: native_constant_time_equal_def raya_value_to_string_def
        raya_value_from_bool_def Let_def or_assign_size_t_eq_0 compare_loop_result)
qed

text \<open>
  Claim C2.  The comparison loop runs exactly \<open>max len_a len_b\<close> times.  Iteration
  \<open>i\<close> reads index \<open>i\<close> of each input, or takes the padding byte 0 for an input that
  has ended, so the indices visited are \<open>0, 1, \<dots>, max len_a len_b - 1\<close> whatever the
  bytes are and wherever the inputs first differ.
\<close>

theorem compare_loop_visits_all:
  "length (snd (compare_loop a b)) = max (strlen a) (strlen b) \<and>
   snd (compare_loop a b) =
     map (\<lambda>i. (i, if i < strlen a then of_char (a ! i) else 0,
                    if i < strlen b then of_char (b ! i) else 0))
       [0..<max (strlen a) (strlen b)]"
proof -
  have m: "(if strlen a > strlen b then strlen a else strlen b) = max (strlen a) (strlen b)"
    by (simp add: max_def)
  have reads: "snd (compare_loop a b) =
     map (\<lambda>i. (i, if i < strlen a then of_char (a ! i) else 0,
                    if i < strlen b then of_char (b ! i) else 0))
       [0..<max (strlen a) (strlen b)]"
    unfolding compare_loop_def Let_def m by (simp add: ct_loop_reads)
  show ?thesis
    by (simp add: reads)
qed

section \<open>The crypto module\<close>

lemma strlen_no_nul: "CHR 0x00 \<notin> set s \<Longrightarrow> strlen s = length s"
  by (induction s) auto

lemma std_string_id: "CHR 0x00 \<notin> set s \<Longrightarrow> std_string s = s"
  by (simp add: std_string_def strlen_no_nul)

lemma std_string_Nil: "std_string [] = []"
  by (simp add: std_string_def)

lemma std_string_Cons:
  "std_string (c # cs) = (if c = CHR 0x00 then [] else c # std_string cs)"
  by (simp add: std_string_def)

lemma std_string_no_nul: "CHR 0x00 \<notin> set (std_string s)"
  by (induction s) (auto simp: std_string_Nil std_string_Cons)

lemma std_string_append:
  "CHR 0x00 \<notin> set a \<Longrightarrow> std_string (a @ b) = a @ std_string b"
  by (induction a) (auto simp: std_string_Cons)

lemma std_string_idem: "std_string (std_string s) = std_string s"
  by (simp add: std_string_id std_string_no_nul)

lemma of_char_int_eq_0: "(of_char c :: int) = 0 \<longleftrightarrow> c = CHR 0x00"
  using of_char_eq_iff [where ?'a = int, of c "CHR 0x00"] by simp

lemma strcmp_eq_0: "strcmp a b = 0 \<longleftrightarrow> std_string a = std_string b"
  by (induction a b rule: strcmp.induct)
     (auto simp: std_string_Nil std_string_Cons of_char_int_eq_0)

lemma fold_array_set:
  "\<exists>ys. fold (\<lambda>i array. raya_array_set array i (f i)) is (VArray xs) = VArray ys \<and>
        length ys = length xs"
proof (induction "is" arbitrary: xs)
  case Nil
  show ?case by simp
next
  case (Cons i "is")
  have "\<exists>zs. raya_array_set (VArray xs) i (f i) = VArray zs \<and> length zs = length xs"
    by (simp add: raya_array_set_def)
  then obtain zs where zs: "raya_array_set (VArray xs) i (f i) = VArray zs" "length zs = length xs"
    by blast
  from Cons [of zs] zs show ?case by simp
qed

lemma hex_digit_lower: "n < 16 \<Longrightarrow> hex_digit n \<in> set ''0123456789abcdef''"
  unfolding hex_digit_def by (rule nth_mem) simp

lemma sprintf_02x_set: "set (sprintf_02x b) \<subseteq> set ''0123456789abcdef''"
proof -
  have "unat b < 256" using unsigned_less [of b] by simp
  then have "unat b div 16 < 16" by simp
  then show ?thesis
    unfolding sprintf_02x_def using hex_digit_lower by auto
qed

lemma to_hex_length: "length (to_hex h n) = 2 * n"
  by (induction n) (auto simp: to_hex_def sprintf_02x_def)

lemma to_hex_set: "set (to_hex h n) \<subseteq> set ''0123456789abcdef''"
  unfolding to_hex_def using sprintf_02x_set by fastforce

lemma to_hex_no_nul: "CHR 0x00 \<notin> set (to_hex h n)"
  using to_hex_set [of h n] by auto

text \<open>
  Claim C9.  Called with two string arguments, \<open>hash\<close> returns a string of exactly 64
  lower-case hexadecimal characters when the algorithm is \<open>sha256\<close>, one of exactly
  128 when it is \<open>sha512\<close>, and for any other algorithm an error value whose message
  names the algorithm.
\<close>

theorem native_hash_result:
  "(std_string algorithm = ''sha256'' \<longrightarrow>
      (\<exists>hex. native_hash env [VString algorithm, VString data] = VString hex \<and>
             length hex = 64 \<and> set hex \<subseteq> set ''0123456789abcdef'')) \<and>
   (std_string algorithm = ''sha512'' \<longrightarrow>
      (\<exists>hex. native_hash env [VString algorithm, VString data] = VString hex \<and>
             length hex = 128 \<and> set hex \<subseteq> set ''0123456789abcdef'')) \<and>
   (std_string algorithm \<noteq> ''sha256'' \<and> std_string algorithm \<noteq> ''sha512'' \<longrightarrow>
      native_hash env [VString algorithm, VString data] =
        VError (''Unsupported hash algorithm: '' @ std_string algorithm @
                '' (supported: sha256, sha512)''))"
proof -
  have lit: "std_string ''sha256'' = ''sha256''" "std_string ''sha512'' = ''sha512''"
    by (simp_all add: std_string_Cons std_string_Nil)
  have msg: "std_string (''Unsupported hash algorithm: '' @ std_string algorithm @
                '' (supported: sha256, sha512)'') =
             ''Unsupported hash algorithm: '' @ std_string algorithm @
                '' (supported: sha256, sha512)''"
    by (rule std_string_id) (simp add: std_string_no_nul)
  show ?thesis
    by (simp add: native_hash_def raya_value_to_string_def strcmp_eq_0 lit Let_def
        raya_value_from_string_def raya_error_new_def msg std_string_id to_hex_no_nul
        to_hex_length to_hex_set SHA256_DIGEST_LENGTH_def SHA512_DIGEST_LENGTH_def
        del: append.simps set_simps list.set)
qed

text \<open>
  Claim C3.  Called with one integer argument, \<open>randomBytes\<close> returns the error value
  with the range message when the length is at most 0 or above 1048576, and an array
  of exactly that many elements when the length is between 1 and 1048576, the cap
  included.
\<close>

theorem native_random_bytes_result:
  "(sint n \<le> 0 \<or> 1048576 < sint n \<longrightarrow>
      native_random_bytes env [VI32 n] = VError ''Length must be between 1 and 1048576'') \<and>
   (1 \<le> sint n \<and> sint n \<le> 1048576 \<longrightarrow>
      (\<exists>xs. native_random_bytes env [VI32 n] = VArray xs \<and> int (length xs) = sint n))"
proof -
  have msg: "std_string ''Length must be between 1 and 1048576'' =
      ''Length must be between 1 and 1048576''"
    by (rule std_string_id) simp
  have ok: "\<exists>xs. fold (\<lambda>i array. raya_array_set array i (f i)) is (raya_array_new k) = VArray xs
      \<and> length xs = k" for f "is" k
    using fold_array_set [of f "is" "replicate k VNull"] by (simp add: raya_array_new_def)
  have fail: "sint n \<le> 0 \<or> 1048576 < sint n \<Longrightarrow>
      native_random_bytes env [VI32 n] = VError ''Length must be between 1 and 1048576''"
    by (simp add: native_random_bytes_def raya_value_to_i32_def raya_error_new_def msg Let_def)
  have succ: "\<exists>xs. native_random_bytes env [VI32 n] = VArray xs \<and> int (length xs) = sint n"
    if "1 \<le> sint n" "sint n \<le> 1048576"
  proof -
    let ?k = "nat (sint n)"
    obtain xs where
      "fold (\<lambda>i array. raya_array_set array i
          (raya_value_from_i32 (ucast (map (\<lambda>i. (ucast (dis_gen env i) :: 8 word)) [0..<?k] ! i))))
        [0..<?k] (raya_array_new ?k) = VArray xs" "length xs = ?k"
      using ok [of "\<lambda>i. raya_value_from_i32
          (ucast (map (\<lambda>i. (ucast (dis_gen env i) :: 8 word)) [0..<?k] ! i))" "[0..<?k]" ?k]
      by blast
    with that show ?thesis
      by (simp add: native_random_bytes_def raya_value_to_i32_def Let_def)
  qed
  from fail succ show ?thesis by blast
qed


text \<open>The three cases of C9 at \<open>sha256\<close>, \<open>sha512\<close> and \<open>md5\<close>.\<close>

theorem native_hash_result_witness:
  "std_string ''sha256'' = ''sha256'' \<and>
   (\<exists>hex. native_hash zero_crypto_env [VString ''sha256'', VString ''hello world''] = VString hex \<and>
          length hex = 64 \<and> set hex \<subseteq> set ''0123456789abcdef'') \<and>
   std_string ''sha512'' = ''sha512'' \<and>
   (\<exists>hex. native_hash zero_crypto_env [VString ''sha512'', VString ''hello world''] = VString hex \<and>
          length hex = 128 \<and> set hex \<subseteq> set ''0123456789abcdef'') \<and>
   std_string ''md5'' \<noteq> ''sha256'' \<and> std_string ''md5'' \<noteq> ''sha512'' \<and>
   native_hash zero_crypto_env [VString ''md5'', VString ''data''] =
     VError ''Unsupported hash algorithm: md5 (supported: sha256, sha512)''"
proof -
  have lit: "std_string ''sha256'' = ''sha256''" "std_string ''sha512'' = ''sha512''"
    "std_string ''md5'' = ''md5''"
    by (simp_all add: std_string_Cons std_string_Nil)
  show ?thesis
    using native_hash_result [of "''sha256''" zero_crypto_env "''hello world''"]
      native_hash_result [of "''sha512''" zero_crypto_env "''hello world''"]
      native_hash_result [of "''md5''" zero_crypto_env "''data''"]
    by (simp add: lit)
qed

text \<open>C3 at the lengths 0, 1048577 and 1048576.\<close>

theorem native_random_bytes_result_witness:
  "sint (0 :: 32 word) \<le> 0 \<and>
   native_random_bytes zero_crypto_env [VI32 0] = VError ''Length must be between 1 and 1048576'' \<and>
   1048576 < sint (1048577 :: 32 word) \<and>
   native_random_bytes zero_crypto_env [VI32 1048577] =
     VError ''Length must be between 1 and 1048576'' \<and>
   1 \<le> sint (1048576 :: 32 word) \<and> sint (1048576 :: 32 word) \<le> 1048576 \<and>
   (\<exists>xs. native_random_bytes zero_crypto_env [VI32 1048576] = VArray xs \<and>
         int (length xs) = 1048576)"
  using native_random_bytes_result [of 0 zero_crypto_env]
    native_random_bytes_result [of 1048577 zero_crypto_env]
    native_random_bytes_result [of 1048576 zero_crypto_env]
  by simp

section \<open>Argument counts in crypto.cpp\<close>

lemma argc_message_no_nul: "m \<in> set argument_count_messages \<Longrightarrow> std_string m = m"
  by (rule std_string_id) (auto simp: argument_count_messages_def)

lemma crypto_argument_count_checked:
  "length args \<noteq> 2 \<Longrightarrow> native_hash env args = VError ''hash() requires 2 arguments''"
  "length args' \<noteq> 1 \<Longrightarrow>
     native_random_bytes env args' = VError ''randomBytes() requires 1 argument''"
  "length args \<noteq> 2 \<Longrightarrow>
     native_constant_time_equal args = VError ''constantTimeEqual() requires 2 arguments''"
proof -
  have m: "raya_error_new m = VError m" if "m \<in> set argument_count_messages" for m
    using that by (simp add: raya_error_new_def argc_message_no_nul)
  show "length args \<noteq> 2 \<Longrightarrow> native_hash env args = VError ''hash() requires 2 arguments''"
    by (simp add: native_hash_def m argument_count_messages_def)
  show "length args' \<noteq> 1 \<Longrightarrow>
     native_random_bytes env args' = VError ''randomBytes() requires 1 argument''"
    by (simp add: native_random_bytes_def m argument_count_messages_def)
  show "length args \<noteq> 2 \<Longrightarrow>
     native_constant_time_equal args = VError ''constantTimeEqual() requires 2 arguments''"
    by (simp add: native_constant_time_equal_def m argument_count_messages_def)
qed

lemma raya_error_new_Cons:
  "raya_error_new (c # m) = (if c = CHR 0x00 then VError [] else VError (c # std_string m))"
  by (simp add: raya_error_new_def std_string_Cons)

lemma argument_count_error_first:
  "argument_count_error (VError m) \<Longrightarrow>
     \<exists>c rest. m = c # rest \<and> c \<in> set ''hrc''"
  by (auto simp: argument_count_error_def argument_count_messages_def)

lemma not_argc_upper:
  "c \<notin> set ''hrc'' \<Longrightarrow> \<not> argument_count_error (VError (c # m))"
  using argument_count_error_first by blast

lemma not_argc_raya_error_new:
  "c \<notin> set ''hrc'' \<Longrightarrow> \<not> argument_count_error (raya_error_new (c # m))"
proof (cases "c = CHR 0x00")
  case True
  then show ?thesis
    using argument_count_error_first [of "[]"] by (auto simp: raya_error_new_Cons)
next
  case False
  assume "c \<notin> set ''hrc''"
  with False show ?thesis
    using not_argc_upper [of c "std_string m"] by (simp add: raya_error_new_Cons)
qed

lemma argument_count_error_simps:
  "\<not> argument_count_error VNull" "\<not> argument_count_error (VBool b)"
  "\<not> argument_count_error (VI32 n)" "\<not> argument_count_error (VString s)"
  "\<not> argument_count_error (VArray xs)" "\<not> argument_count_error (VObject k)"
  by (simp_all add: argument_count_error_def)

lemma argc_error_message:
  "m \<in> set argument_count_messages \<Longrightarrow> argument_count_error (raya_error_new m)"
  by (simp add: raya_error_new_def argc_message_no_nul argument_count_error_def)

lemma not_argc_fold:
  "\<not> argument_count_error (fold (\<lambda>i array. raya_array_set array i (f i)) is (raya_array_new k))"
  using fold_array_set [of f "is" "replicate k VNull"]
  by (auto simp: raya_array_new_def argument_count_error_simps)

lemma native_hash_arity: "argument_count_error (native_hash env args) \<longleftrightarrow> length args \<noteq> 2"
proof (cases "length args = 2")
  case False
  then show ?thesis
    by (simp add: native_hash_def argc_error_message argument_count_messages_def)
next
  case True
  then show ?thesis
    by (simp add: native_hash_def Let_def not_argc_raya_error_new raya_value_from_string_def
        argument_count_error_simps split: option.splits)
qed

lemma native_random_bytes_arity:
  "argument_count_error (native_random_bytes env args) \<longleftrightarrow> length args \<noteq> 1"
proof (cases "length args = 1")
  case False
  then show ?thesis
    by (simp add: native_random_bytes_def argc_error_message argument_count_messages_def)
next
  case True
  then show ?thesis
    by (simp add: native_random_bytes_def Let_def not_argc_raya_error_new not_argc_fold)
qed

lemma native_constant_time_equal_arity:
  "argument_count_error (native_constant_time_equal args) \<longleftrightarrow> length args \<noteq> 2"
proof (cases "length args = 2")
  case False
  then show ?thesis
    by (simp add: native_constant_time_equal_def argc_error_message argument_count_messages_def)
next
  case True
  then show ?thesis
    by (simp add: native_constant_time_equal_def Let_def not_argc_raya_error_new
        raya_value_from_bool_def argument_count_error_simps split: option.splits)
qed

lemma crypto_functions:
  "mod_functions raya_module_init_crypto =
     [(''hash'', native_hash, 2),
      (''randomBytes'', native_random_bytes, 1),
      (''constantTimeEqual'', (\<lambda>env. native_constant_time_equal), 2)]"
  by (simp add: raya_module_init_crypto_def raya_module_builder_finish_def
      raya_module_add_function_def raya_module_builder_new_def)

lemma crypto_declared_arity_is_required_argc:
  "\<forall>(name, func, arity) \<in> set (mod_functions raya_module_init_crypto).
      \<forall>env args. argument_count_error (func env args) \<longleftrightarrow> length args \<noteq> arity"
  by (simp add: crypto_functions native_hash_arity native_random_bytes_arity
      native_constant_time_equal_arity)

section \<open>The native functions of fs.cpp\<close>

lemma fs_cpp_no_body: "function_body (fs_cpp_native_functions impl) f = None"
  by (simp add: fs_cpp_native_functions_def RAYA_FUNCTION_def)

lemma fs_functions:
  "mod_functions raya_module_init_fs =
     [(''readFile'', ''native_read_file'', 1),
      (''writeFile'', ''native_write_file'', 2),
      (''exists'', ''native_exists'', 1),
      (''mkdir'', ''native_mkdir'', 1),
      (''remove'', ''native_remove'', 1),
      (''listDir'', ''native_list_dir'', 1)]"
  by (simp add: raya_module_init_fs_def raya_module_builder_finish_def
      raya_module_add_function_def raya_module_builder_new_def Let_def)

text \<open>
  Claim C4 asks that each of the nine native functions answers a wrong argument count
  with its argument-count error.  The three functions of crypto.cpp do.  The six of
  fs.cpp are prototypes without a body: called with no argument, none of them runs
  any code, so none returns the error value.
\<close>

theorem fs_wrong_argc_no_result:
  "call_native (fs_cpp_native_functions impl) ''native_read_file'' [] = None \<and>
   call_native (fs_cpp_native_functions impl) ''native_write_file'' [] = None \<and>
   call_native (fs_cpp_native_functions impl) ''native_exists'' [] = None \<and>
   call_native (fs_cpp_native_functions impl) ''native_mkdir'' [] = None \<and>
   call_native (fs_cpp_native_functions impl) ''native_remove'' [] = None \<and>
   call_native (fs_cpp_native_functions impl) ''native_list_dir'' [] = None"
  by (simp add: call_native_def fs_cpp_no_body)

text \<open>
  Claim C6 asks that \<open>readFile\<close> returns an error value when the file read has a
  content that begins with \<open>Error\<close> or \<open>Failed\<close>.  The text that inspects the
  content is the second argument of the macro and is dropped: \<open>native_read_file\<close>
  has no body, and a call with the path of such a file has no result.
\<close>

theorem read_file_no_result:
  "function_body (fs_cpp_native_functions impl) ''native_read_file'' = None \<and>
   call_native (fs_cpp_native_functions impl) ''native_read_file''
     [VString ''/var/log/app.log''] = None"
  by (simp add: call_native_def fs_cpp_no_body)

text \<open>
  Claim C10 asks that every registered entry declares as arity the one argument count
  that the registered function accepts.  The entries of the crypto module do.  The
  entries of the fs module are listed here with their declared arity and the body of
  the registered symbol: none of the six symbols has a body, so no argument count is
  accepted or rejected by any of them.
\<close>

theorem fs_entries_have_no_body:
  "map (\<lambda>(name, symbol, arity).
          (name, arity, function_body (fs_cpp_native_functions impl) symbol))
     (mod_functions raya_module_init_fs) =
   [(''readFile'', 1, None), (''writeFile'', 2, None), (''exists'', 1, None),
    (''mkdir'', 1, None), (''remove'', 1, None), (''listDir'', 1, None)]"
  by (simp add: fs_functions fs_cpp_no_body)

section \<open>Validation of argument types\<close>

text \<open>
  Claim C5 says that every native function answers an argument of the wrong runtime
  type with an error value that reports the mismatch and never takes the accessor's
  sentinel for the value.  \<open>randomBytes\<close> called with the string \<open>32\<close> reads the
  sentinel 0 as the length: it returns what it returns for the integer 0, the error
  value with the range message.
\<close>

theorem random_bytes_reads_sentinel:
  "raya_value_to_i32 (VString ''32'') = 0 \<and>
   native_random_bytes zero_crypto_env [VString ''32''] =
     native_random_bytes zero_crypto_env [VI32 0] \<and>
   native_random_bytes zero_crypto_env [VString ''32''] =
     VError ''Length must be between 1 and 1048576''"
proof -
  have m: "std_string ''Length must be between 1 and 1048576'' =
      ''Length must be between 1 and 1048576''"
    by (rule std_string_id) simp
  show ?thesis
    by (simp add: native_random_bytes_def raya_value_to_i32_def raya_error_new_def m)
qed

text \<open>
  Claim C5 as amended.  \<open>hash\<close> and \<open>constantTimeEqual\<close> test the accessor's null
  sentinel and return an error value that reports the argument that is not a string.
  \<open>randomBytes\<close> called with a value that is not an integer returns the error value
  with the range message.  The string converter of fs.cpp turns an argument that is
  not a string into the empty string and reports nothing.
\<close>

theorem type_validation_as_implemented:
  "(raya_value_to_string x = None \<longrightarrow>
      native_hash cenv [x, y] = VError ''First argument must be a string'') \<and>
   (raya_value_to_string x \<noteq> None \<and> raya_value_to_string y = None \<longrightarrow>
      native_hash cenv [x, y] = VError ''Second argument must be a string'') \<and>
   (raya_value_to_string x = None \<or> raya_value_to_string y = None \<longrightarrow>
      native_constant_time_equal [x, y] = VError ''Both arguments must be strings'') \<and>
   ((\<forall>n. x \<noteq> VI32 n) \<longrightarrow>
      native_random_bytes cenv [x] = VError ''Length must be between 1 and 1048576'') \<and>
   (raya_value_to_string x = None \<longrightarrow> string_from_raya x = [])"
proof -
  have m: "std_string ''First argument must be a string'' = ''First argument must be a string''"
    "std_string ''Second argument must be a string'' = ''Second argument must be a string''"
    "std_string ''Both arguments must be strings'' = ''Both arguments must be strings''"
    "std_string ''Length must be between 1 and 1048576'' = ''Length must be between 1 and 1048576''"
    by (simp_all add: std_string_id)
  have h1: "raya_value_to_string x = None \<Longrightarrow>
      native_hash cenv [x, y] = VError ''First argument must be a string''"
    by (simp add: native_hash_def raya_error_new_def m)
  have h2: "raya_value_to_string x \<noteq> None \<Longrightarrow> raya_value_to_string y = None \<Longrightarrow>
      native_hash cenv [x, y] = VError ''Second argument must be a string''"
    by (auto simp: native_hash_def raya_error_new_def m)
  have c: "raya_value_to_string x = None \<or> raya_value_to_string y = None \<Longrightarrow>
      native_constant_time_equal [x, y] = VError ''Both arguments must be strings''"
    by (auto simp: native_constant_time_equal_def raya_error_new_def m split: option.splits)
  have r: "\<forall>n. x \<noteq> VI32 n \<Longrightarrow>
      native_random_bytes cenv [x] = VError ''Length must be between 1 and 1048576''"
    by (cases x) (simp_all add: native_random_bytes_def raya_value_to_i32_def raya_error_new_def m)
  have f: "raya_value_to_string x = None \<Longrightarrow> string_from_raya x = []"
    by (simp add: string_from_raya_def)
  from h1 h2 c r f show ?thesis by blast
qed

text \<open>The amended C5 at an integer in place of a string and at null in place of an
  integer.\<close>

theorem type_validation_as_implemented_witness:
  "raya_value_to_string (VI32 7) = None \<and> raya_value_to_string (VString ''x'') \<noteq> None \<and>
   (\<forall>n. VNull \<noteq> VI32 n) \<and>
   native_hash zero_crypto_env [VI32 7, VString ''x''] = VError ''First argument must be a string'' \<and>
   native_hash zero_crypto_env [VString ''x'', VI32 7] = VError ''Second argument must be a string'' \<and>
   native_constant_time_equal [VI32 7, VString ''x''] = VError ''Both arguments must be strings'' \<and>
   native_random_bytes zero_crypto_env [VNull] = VError ''Length must be between 1 and 1048576'' \<and>
   string_from_raya (VI32 7) = []"
proof -
  have a: "raya_value_to_string (VI32 7) = None" "raya_value_to_string (VString ''x'') \<noteq> None"
    "\<forall>n. VNull \<noteq> VI32 n"
    by (simp_all add: raya_value_to_string_def)
  show ?thesis
    using a type_validation_as_implemented [of "VI32 7" zero_crypto_env "VString ''x''"]
      type_validation_as_implemented [of "VString ''x''" zero_crypto_env "VI32 7"]
      type_validation_as_implemented [of VNull zero_crypto_env VNull]
    by simp
qed

section \<open>Releasing handles\<close>

text \<open>
  Claim C8.  Each of the four release functions called with NULL leaves the allocator
  state as it is, and \<open>raya_vm_destroy\<close> called again on a handle that has been
  destroyed leaves the state as the first call left it.
\<close>

theorem release_null_and_destroyed:
  "raya_value_free None alloc = alloc \<and>
   raya_error_free None alloc = alloc \<and>
   raya_snapshot_free None alloc = alloc \<and>
   raya_vm_destroy None alloc = alloc \<and>
   raya_vm_destroy vm (raya_vm_destroy vm alloc) = raya_vm_destroy vm alloc"
  by (cases vm)
     (simp_all add: raya_value_free_def raya_error_free_def raya_snapshot_free_def
        raya_vm_destroy_def release_def)

end
